theory Spec2Isabelle
  imports Main "HOL-Library.AList"
begin

section \<open>Data model of the dispatcher\<close>

text \<open>
  The development embeds \<^verbatim>\<open>covalent_dispatcher/_core/dispatcher.py\<close> together with the
  part of \<^verbatim>\<open>covalent_dispatcher/_dal/result.py\<close> that the dispatcher writes through.
  Every store operation of one run carries the same \<^verbatim>\<open>dispatch_id\<close>; the model works on that
  dispatch's slice of the store, so the id is only kept where it labels an effect
  (starting a sub-dispatch).
\<close>

text \<open>
  Modelled from the spec: the members of \<^verbatim>\<open>RESULT_STATUS\<close> (util_classes is not part of the
  sources). \<open>NEW_OBJECT\<close> is the status of a node that has not run yet; the other five are the
  ones the dispatcher names.
\<close>

datatype status = NEW_OBJECT | RUNNING | DISPATCHING | COMPLETED | FAILED | CANCELLED

datatype error = KeyError string

type_synonym time = nat

type_synonym obj = string

text \<open>
  Attributes of an edge of the transport graph. The dispatcher reads them from a dict with
  \<^verbatim>\<open>d.get("wait_for")\<close> (absent key is falsy) and \<^verbatim>\<open>d["param_type"]\<close>,
  \<^verbatim>\<open>d["arg_index"]\<close>, \<^verbatim>\<open>d["edge_name"]\<close> (absent key raises), so every key is optional.
\<close>

record edge_attrs =
  wait_for :: "bool option"
  param_type :: "string option"
  arg_index :: "int option"
  edge_name :: "string option"

record edge =
  source :: nat
  target :: nat
  attrs :: edge_attrs

text \<open>
  The node-link form of the transport graph: the nodes in their stored order and the edges, a
  multigraph (one parent may feed one child through several edges).
\<close>

record graph =
  g_nodes :: "nat list"
  g_edges :: "edge list"

section \<open>Readiness tracker\<close>

text \<open>
  \<^verbatim>\<open>g.in_degree()\<close> of networkx on the multigraph: one pair per node, in node order, counting
  every incoming edge.
\<close>

definition in_degree_of :: "graph \<Rightarrow> nat \<Rightarrow> int" where
  "in_degree_of g n = int (length (filter (\<lambda>e. target e = n) (g_edges g)))"

definition in_degree :: "graph \<Rightarrow> (nat \<times> int) list" where
  "in_degree g = map (\<lambda>n. (n, in_degree_of g n)) (g_nodes g)"

text \<open>
  The loop body of \<^verbatim>\<open>_get_initial_tasks_and_deps\<close>: the accumulator is
  \<open>(num_tasks, ready_nodes, pending_parents)\<close>.
\<close>

fun initial_loop ::
  "(nat \<times> int) list \<Rightarrow> int \<times> nat list \<times> (nat \<rightharpoonup> int) \<Rightarrow> int \<times> nat list \<times> (nat \<rightharpoonup> int)"
where
  "initial_loop [] acc = acc"
| "initial_loop ((node_id, d) # rest) (num_tasks, ready_nodes, pending_parents) =
     initial_loop rest
       (num_tasks + 1,
        (if d = 0 then ready_nodes @ [node_id] else ready_nodes),
        pending_parents(node_id \<mapsto> d))"

definition get_initial_tasks_and_deps :: "graph \<Rightarrow> int \<times> nat list \<times> (nat \<rightharpoonup> int)" where
  "get_initial_tasks_and_deps g = initial_loop (in_degree g) (0, [], Map.empty)"

text \<open>The graph of the round-trip example: edges (0,1), (0,2), (1,3), (2,3).\<close>

definition no_attrs :: edge_attrs where
  "no_attrs = \<lparr>wait_for = None, param_type = None, arg_index = None, edge_name = None\<rparr>"

definition mk_edge :: "nat \<Rightarrow> nat \<Rightarrow> edge" where
  "mk_edge p c = \<lparr>source = p, target = c, attrs = no_attrs\<rparr>"

definition diamond :: graph where
  "diamond = \<lparr>g_nodes = [0, 1, 2, 3],
              g_edges = [mk_edge 0 1, mk_edge 0 2, mk_edge 1 3, mk_edge 2 3]\<rparr>"


section \<open>The result store\<close>

text \<open>
  One electron of the transport graph with the attributes the dispatcher reads or writes:
  \<^verbatim>\<open>name\<close>, \<^verbatim>\<open>value\<close>, \<^verbatim>\<open>executor\<close>, \<^verbatim>\<open>executor_data\<close> are read with
  \<^verbatim>\<open>get_electron_attribute\<close>; status, times and output are written by \<^verbatim>\<open>_update_node\<close>.
  Python's \<^verbatim>\<open>None\<close> is \<open>None\<close>.
\<close>

record electron =
  e_name :: string
  e_value :: "obj option"
  e_executor :: string
  e_executor_data :: string
  e_status :: status
  e_start_time :: "time option"
  e_end_time :: "time option"
  e_output :: "obj option"

text \<open>
  The \<^verbatim>\<open>Result\<close> object of \<^verbatim>\<open>_dal/result.py\<close>: the lattice record's metadata and assets, the
  electrons by node id and the transport graph.
\<close>

record result_store =
  d_status :: status
  d_start_time :: "time option"
  d_end_time :: "time option"
  d_error :: "string option"
  d_result :: "obj option"
  num_nodes :: nat
  completed_electron_num :: nat
  electrons :: "nat \<rightharpoonup> electron"
  transport_graph :: graph

text \<open>
  The keyword arguments of \<^verbatim>\<open>generate_dispatch_result\<close> / \<^verbatim>\<open>_update_dispatch\<close> (default
  \<^verbatim>\<open>None\<close>) and the \<^verbatim>\<open>node_result\<close> dict the dispatcher builds for \<^verbatim>\<open>update_node_result\<close>.
\<close>

record dispatch_result =
  r_start_time :: "time option"
  r_end_time :: "time option"
  r_status :: "status option"
  r_error :: "string option"
  r_result :: "obj option"

record node_result =
  n_node_id :: nat
  n_start_time :: "time option"
  n_end_time :: "time option"
  n_status :: "status option"
  n_output :: "obj option"

text \<open>The call \<^verbatim>\<open>run_abstract_task(...)\<close> wrapped by \<^verbatim>\<open>asyncio.create_task\<close>.\<close>

record runner_call =
  c_new_runner :: bool
  c_node_id :: nat
  c_selected_executor :: "string \<times> string"
  c_node_name :: string
  c_args :: "nat list"
  c_kwargs :: "(string \<times> nat) list"

type_synonym event = "nat \<times> status \<times> string option"

text \<open>
  What a run does to the outside, in order: writes through the data service, tasks created
  on the asyncio loop, the status queue of the dispatch created, read and removed.
\<close>

datatype effect =
    UpdateDispatch dispatch_result
  | UpdateNode node_result
  | CreateTask runner_call
  | RunDispatch string
  | PersistResult
  | FinalizeDispatch
  | QueueCreated
  | QueueGet event
  | QueueRemoved

text \<open>
  The world a run acts on: the store, the wall clock (\<open>clock w k\<close> is what the \<open>k\<close>-th call of
  \<^verbatim>\<open>datetime.now\<close> returns) with the number of readings taken, and the effects so far.
\<close>

record world =
  store :: result_store
  clock :: "nat \<Rightarrow> time"
  reads :: nat
  trace :: "effect list"

text \<open>
  Constants imported from modules that are not part of the sources
  (\<^verbatim>\<open>parameter_prefix\<close>, \<^verbatim>\<open>postprocess_prefix\<close> of \<^verbatim>\<open>defaults\<close>, the configuration flag behind
  \<^verbatim>\<open>NEW_RUNNER_ENABLED\<close>) and the text \<^verbatim>\<open>traceback\<close> produces for an exception.
\<close>

record config =
  parameter_prefix :: string
  postprocess_prefix :: string
  NEW_RUNNER_ENABLED :: bool
  format_exception :: "error \<Rightarrow> string"

text \<open>Python's \<^verbatim>\<open>s.startswith(p)\<close>.\<close>

fun startswith :: "string \<Rightarrow> string \<Rightarrow> bool" where
  "startswith s [] = True"
| "startswith [] (p # ps) = False"
| "startswith (c # s) (p # ps) = (c = p \<and> startswith s ps)"

definition now :: "world \<Rightarrow> time \<times> world" where
  "now w = (clock w (reads w), w\<lparr>reads := Suc (reads w)\<rparr>)"

definition emit :: "effect \<Rightarrow> world \<Rightarrow> world" where
  "emit x w = w\<lparr>trace := trace w @ [x]\<rparr>"

subsection \<open>Methods of \<^verbatim>\<open>Result\<close>\<close>

text \<open>\<^verbatim>\<open>Result._update_dispatch\<close>: every argument that is not \<^verbatim>\<open>None\<close> is stored.\<close>

definition result_update_dispatch :: "dispatch_result \<Rightarrow> result_store \<Rightarrow> result_store" where
  "result_update_dispatch r st =
     (let st1 = (case r_start_time r of None \<Rightarrow> st | Some t \<Rightarrow> st\<lparr>d_start_time := Some t\<rparr>);
          st2 = (case r_end_time r of None \<Rightarrow> st1 | Some t \<Rightarrow> st1\<lparr>d_end_time := Some t\<rparr>);
          st3 = (case r_status r of None \<Rightarrow> st2 | Some s \<Rightarrow> st2\<lparr>d_status := s\<rparr>);
          st4 = (case r_error r of None \<Rightarrow> st3 | Some e \<Rightarrow> st3\<lparr>d_error := Some e\<rparr>);
          st5 = (case r_result r of None \<Rightarrow> st4 | Some x \<Rightarrow> st4\<lparr>d_result := Some x\<rparr>)
      in st5)"

text \<open>
  \<^verbatim>\<open>Result._update_node\<close> with the keys of the dispatcher's \<^verbatim>\<open>node_result\<close>. Reading the name
  of a node the graph does not have raises. A \<^verbatim>\<open>COMPLETED\<close> status increments
  \<^verbatim>\<open>completed_electron_num\<close>; for the postprocess node with an end time the node's output
  becomes the dispatch result and status and end time are committed to the dispatch.
\<close>

definition result_update_node :: "config \<Rightarrow> node_result \<Rightarrow> result_store \<Rightarrow> error + result_store" where
  "result_update_node cfg nr st =
     (case electrons st (n_node_id nr) of
        None \<Rightarrow> Inl (KeyError ''node_id'')
      | Some e \<Rightarrow>
         (let name = e_name e;
              e1 = (case n_start_time nr of None \<Rightarrow> e | Some t \<Rightarrow> e\<lparr>e_start_time := Some t\<rparr>);
              e2 = (case n_end_time nr of None \<Rightarrow> e1 | Some t \<Rightarrow> e1\<lparr>e_end_time := Some t\<rparr>);
              e3 = (case n_status nr of None \<Rightarrow> e2 | Some s \<Rightarrow> e2\<lparr>e_status := s\<rparr>);
              e4 = (case n_output nr of None \<Rightarrow> e3 | Some x \<Rightarrow> e3\<lparr>e_output := Some x\<rparr>);
              st1 = st\<lparr>electrons := (electrons st)(n_node_id nr \<mapsto> e4),
                       completed_electron_num :=
                         (if n_status nr = Some COMPLETED then completed_electron_num st + 1
                          else completed_electron_num st)\<rparr>
          in if startswith name (postprocess_prefix cfg) \<and> n_end_time nr \<noteq> None
             then Inr (st1\<lparr>d_result := e_output e4,
                           d_end_time := n_end_time nr,
                           d_status := (case n_status nr of None \<Rightarrow> d_status st1 | Some s \<Rightarrow> s)\<rparr>)
             else Inr st1))"

text \<open>
  \<^verbatim>\<open>Result._get_incomplete_nodes\<close>: the \<^verbatim>\<open>(id, name)\<close> pairs of the nodes
  \<^verbatim>\<open>0 .. num_nodes - 1\<close> whose status is the given one; a missing node raises.
\<close>

fun nodes_with_status :: "result_store \<Rightarrow> status \<Rightarrow> nat list \<Rightarrow> error + (nat \<times> string) list" where
  "nodes_with_status st s [] = Inr []"
| "nodes_with_status st s (i # rest) =
     (case electrons st i of
        None \<Rightarrow> Inl (KeyError ''node_id'')
      | Some e \<Rightarrow>
         (case nodes_with_status st s rest of
            Inl err \<Rightarrow> Inl err
          | Inr xs \<Rightarrow> Inr (if e_status e = s then (i, e_name e) # xs else xs)))"

definition result_get_incomplete_nodes ::
  "result_store \<Rightarrow> error + ((nat \<times> string) list \<times> (nat \<times> string) list)" where
  "result_get_incomplete_nodes st =
     (case nodes_with_status st FAILED [0 ..< num_nodes st] of
        Inl err \<Rightarrow> Inl err
      | Inr failed_nodes \<Rightarrow>
         (case nodes_with_status st CANCELLED [0 ..< num_nodes st] of
            Inl err \<Rightarrow> Inl err
          | Inr cancelled_nodes \<Rightarrow> Inr (failed_nodes, cancelled_nodes)))"

subsection \<open>The data service\<close>

text \<open>
  Modelled from the spec: the functions of \<^verbatim>\<open>data_manager\<close> (\<^verbatim>\<open>datasvc\<close>), which is not part of
  the sources, as section 6 of the specification gives them, on top of the methods of
  \<^verbatim>\<open>Result\<close> above. \<^verbatim>\<open>get_node_successors\<close> returns the children with multiplicity, one entry
  per edge (section 4.1: each distinct edge decrements once).
\<close>

definition datasvc_get_incoming_edges :: "world \<Rightarrow> nat \<Rightarrow> edge list" where
  "datasvc_get_incoming_edges w node_id =
     filter (\<lambda>e. target e = node_id) (g_edges (transport_graph (store w)))"

definition datasvc_get_node_successors :: "world \<Rightarrow> nat \<Rightarrow> nat list" where
  "datasvc_get_node_successors w node_id =
     map target (filter (\<lambda>e. source e = node_id) (g_edges (transport_graph (store w))))"

definition datasvc_get_graph_nodes_links :: "world \<Rightarrow> graph" where
  "datasvc_get_graph_nodes_links w = transport_graph (store w)"

definition datasvc_get_electron :: "world \<Rightarrow> nat \<Rightarrow> error + electron" where
  "datasvc_get_electron w node_id =
     (case electrons (store w) node_id of None \<Rightarrow> Inl (KeyError ''node_id'') | Some e \<Rightarrow> Inr e)"

definition datasvc_update_node_result :: "config \<Rightarrow> node_result \<Rightarrow> world \<Rightarrow> (error + unit) \<times> world" where
  "datasvc_update_node_result cfg nr w =
     (case result_update_node cfg nr (store w) of
        Inl err \<Rightarrow> (Inl err, w)
      | Inr st \<Rightarrow> (Inr (), emit (UpdateNode nr) (w\<lparr>store := st\<rparr>)))"

definition datasvc_update_dispatch_result :: "dispatch_result \<Rightarrow> world \<Rightarrow> world" where
  "datasvc_update_dispatch_result r w =
     emit (UpdateDispatch r) (w\<lparr>store := result_update_dispatch r (store w)\<rparr>)"

definition generate_dispatch_result :: dispatch_result where
  "generate_dispatch_result =
     \<lparr>r_start_time = None, r_end_time = None, r_status = None, r_error = None, r_result = None\<rparr>"

definition datasvc_get_dispatch_status :: "world \<Rightarrow> status" where
  "datasvc_get_dispatch_status w = d_status (store w)"

definition datasvc_get_incomplete_tasks ::
  "world \<Rightarrow> error + ((nat \<times> string) list \<times> (nat \<times> string) list)" where
  "datasvc_get_incomplete_tasks w = result_get_incomplete_nodes (store w)"

definition datasvc_persist_result :: "world \<Rightarrow> world" where
  "datasvc_persist_result w = emit PersistResult w"

definition datasvc_finalize_dispatch :: "world \<Rightarrow> world" where
  "datasvc_finalize_dispatch w = emit FinalizeDispatch w"

section \<open>The dispatcher\<close>

subsection \<open>\<^verbatim>\<open>_get_abstract_task_inputs\<close>\<close>

text \<open>
  The loop over the incoming edges; the accumulator is \<^verbatim>\<open>abstract_task_input\<close>: the
  \<^verbatim>\<open>(parent, arg_index)\<close> pairs and the keyword dict in insertion order.
\<close>

fun abstract_inputs_loop ::
  "edge list \<Rightarrow> (nat \<times> int) list \<times> (string \<times> nat) list
     \<Rightarrow> error + ((nat \<times> int) list \<times> (string \<times> nat) list)"
where
  "abstract_inputs_loop [] acc = Inr acc"
| "abstract_inputs_loop (e # rest) (args, kwargs) =
     (let parent = source e; d = attrs e in
      if wait_for d = Some True then abstract_inputs_loop rest (args, kwargs)
      else
        (case param_type d of
           None \<Rightarrow> Inl (KeyError ''param_type'')
         | Some pt \<Rightarrow>
            if pt = ''arg'' then
              (case arg_index d of
                 None \<Rightarrow> Inl (KeyError ''arg_index'')
               | Some i \<Rightarrow> abstract_inputs_loop rest (args @ [(parent, i)], kwargs))
            else if pt = ''kwarg'' then
              (case edge_name d of
                 None \<Rightarrow> Inl (KeyError ''edge_name'')
               | Some key \<Rightarrow> abstract_inputs_loop rest (args, AList.update key parent kwargs))
            else abstract_inputs_loop rest (args, kwargs)))"

definition get_abstract_task_inputs ::
  "world \<Rightarrow> nat \<Rightarrow> error + (nat list \<times> (string \<times> nat) list)" where
  "get_abstract_task_inputs w node_id =
     (case abstract_inputs_loop (datasvc_get_incoming_edges w node_id) ([], []) of
        Inl err \<Rightarrow> Inl err
      | Inr (args, kwargs) \<Rightarrow> Inr (map fst (sort_key snd args), kwargs))"

subsection \<open>\<^verbatim>\<open>_handle_completed_node\<close>\<close>

fun handle_completed_loop ::
  "nat list \<Rightarrow> (nat \<rightharpoonup> int) \<Rightarrow> nat list \<Rightarrow> error + (nat list \<times> (nat \<rightharpoonup> int))"
where
  "handle_completed_loop [] pending_parents ready_nodes = Inr (ready_nodes, pending_parents)"
| "handle_completed_loop (child # rest) pending_parents ready_nodes =
     (case pending_parents child of
        None \<Rightarrow> Inl (KeyError ''child'')
      | Some c \<Rightarrow>
          handle_completed_loop rest (pending_parents(child \<mapsto> c - 1))
            (if c - 1 < 1 then ready_nodes @ [child] else ready_nodes))"

definition handle_completed_node ::
  "world \<Rightarrow> nat \<Rightarrow> (nat \<rightharpoonup> int) \<Rightarrow> error + (nat list \<times> (nat \<rightharpoonup> int))" where
  "handle_completed_node w node_id pending_parents =
     handle_completed_loop (datasvc_get_node_successors w node_id) pending_parents []"

subsection \<open>\<^verbatim>\<open>_submit_task\<close>\<close>

definition submit_task :: "config \<Rightarrow> nat \<Rightarrow> world \<Rightarrow> (error + unit) \<times> world" where
  "submit_task cfg node_id w =
     (case datasvc_get_electron w node_id of
        Inl err \<Rightarrow> (Inl err, w)
      | Inr e \<Rightarrow>
         (let node_name = e_name e in
          if startswith node_name (parameter_prefix cfg) then
            (let output = e_value e;
                 (t1, w1) = now w;
                 (t2, w2) = now w1;
                 node_result = \<lparr>n_node_id = node_id, n_start_time = Some t1, n_end_time = Some t2,
                                 n_status = Some COMPLETED, n_output = output\<rparr>
             in datasvc_update_node_result cfg node_result w2)
          else
            (case get_abstract_task_inputs w node_id of
               Inl err \<Rightarrow> (Inl err, w)
             | Inr (args, kwargs) \<Rightarrow>
                (Inr (),
                 emit (CreateTask \<lparr>c_new_runner = NEW_RUNNER_ENABLED cfg, c_node_id = node_id,
                                    c_selected_executor = (e_executor e, e_executor_data e),
                                    c_node_name = node_name, c_args = args, c_kwargs = kwargs\<rparr>)
                   w))))"

text \<open>The \<^verbatim>\<open>for node_id in ...: unresolved_tasks += 1; await _submit_task(...)\<close> loops.\<close>

fun submit_all :: "config \<Rightarrow> nat list \<Rightarrow> world \<Rightarrow> (error + unit) \<times> world" where
  "submit_all cfg [] w = (Inr (), w)"
| "submit_all cfg (node_id # rest) w =
     (case submit_task cfg node_id w of
        (Inl err, w') \<Rightarrow> (Inl err, w')
      | (Inr u, w') \<Rightarrow> submit_all cfg rest w')"

subsection \<open>\<^verbatim>\<open>_finalize_dispatch\<close>\<close>

definition digit_char :: "nat \<Rightarrow> char" where
  "digit_char d = ''0123456789'' ! d"

fun str_nat :: "nat \<Rightarrow> string" where
  "str_nat n = (if n < 10 then [digit_char n] else str_nat (n div 10) @ [digit_char (n mod 10)])"

declare str_nat.simps [simp del]

fun join :: "string \<Rightarrow> string list \<Rightarrow> string" where
  "join sep [] = []"
| "join sep [x] = x"
| "join sep (x # y # rest) = x @ sep @ join sep (y # rest)"

definition newline :: string where
  "newline = [CHR 0x0A]"

text \<open>
  The outcome of a coroutine: it returns a value, raises, or never resumes from
  \<^verbatim>\<open>await status_queue.get()\<close> because no further event is delivered.
\<close>

datatype 'a outcome = Returned 'a | Raised error | Blocked

definition finalize_dispatch :: "world \<Rightarrow> status outcome \<times> world" where
  "finalize_dispatch w =
     (case datasvc_get_incomplete_tasks w of
        Inl err \<Rightarrow> (Raised err, w)
      | Inr (failed, cancelled) \<Rightarrow>
         (let w' =
            (if failed \<noteq> [] \<or> cancelled \<noteq> [] then
               (let failed_nodes = map (\<lambda>x. str_nat (fst x) @ '': '' @ snd x) failed;
                    failed_nodes_msg = join newline failed_nodes;
                    error_msg = ''The following tasks failed:'' @ newline @ failed_nodes_msg;
                    (ts, w1) = now w;
                    status = (if failed \<noteq> [] then FAILED else CANCELLED);
                    result_update = generate_dispatch_result
                      \<lparr>r_status := Some status, r_error := Some error_msg, r_end_time := Some ts\<rparr>
                in datasvc_update_dispatch_result result_update w1)
             else w)
          in (Returned (datasvc_get_dispatch_status w'), w')))"

subsection \<open>\<^verbatim>\<open>_run_planned_workflow\<close>\<close>

record loop_state =
  unresolved_tasks :: int
  tasks_left :: int
  pending_parents :: "nat \<rightharpoonup> int"

definition run_dispatch :: "string \<Rightarrow> world \<Rightarrow> world" where
  "run_dispatch sub_dispatch_id w = emit (RunDispatch sub_dispatch_id) w"

text \<open>
  One turn of the \<^verbatim>\<open>while\<close> loop after \<^verbatim>\<open>status_queue.get()\<close> has returned the event.
  \<^verbatim>\<open>_handle_failed_node\<close> and \<^verbatim>\<open>_handle_cancelled_node\<close> only write to the log.
\<close>

definition handle_event :: "config \<Rightarrow> event \<Rightarrow> loop_state \<Rightarrow> world \<Rightarrow> (error + loop_state) \<times> world" where
  "handle_event cfg ev ls w =
     (case ev of (node_id, node_status, detail) \<Rightarrow>
      if node_status = RUNNING then (Inr ls, w)
      else if node_status = DISPATCHING then
        (case detail of
           None \<Rightarrow> (Inl (KeyError ''sub_dispatch_id''), w)
         | Some sub_dispatch_id \<Rightarrow> (Inr ls, run_dispatch sub_dispatch_id w))
      else
        (let ls1 = ls\<lparr>unresolved_tasks := unresolved_tasks ls - 1\<rparr> in
         if node_status = COMPLETED then
           (let ls2 = ls1\<lparr>tasks_left := tasks_left ls1 - 1\<rparr> in
            case handle_completed_node w node_id (pending_parents ls2) of
              Inl err \<Rightarrow> (Inl err, w)
            | Inr (ready_nodes, pp) \<Rightarrow>
               (case submit_all cfg ready_nodes w of
                  (Inl err, w') \<Rightarrow> (Inl err, w')
                | (Inr u, w') \<Rightarrow>
                   (Inr (ls2\<lparr>unresolved_tasks := unresolved_tasks ls2 + int (length ready_nodes),
                              pending_parents := pp\<rparr>), w')))
         else (Inr ls1, w)))"

text \<open>
  The \<^verbatim>\<open>while unresolved_tasks > 0\<close> loop, run against the events the queue will deliver, in
  order. When the count is positive and nothing more arrives the loop stays blocked.
\<close>

fun event_loop ::
  "config \<Rightarrow> event list \<Rightarrow> loop_state \<Rightarrow> world \<Rightarrow> status outcome \<times> loop_state \<times> world" where
  "event_loop cfg [] ls w =
     (if unresolved_tasks ls > 0 then (Blocked, ls, w)
      else (case finalize_dispatch w of (r, w') \<Rightarrow> (r, ls, w')))"
| "event_loop cfg (ev # rest) ls w =
     (if unresolved_tasks ls > 0 then
        (case handle_event cfg ev ls (emit (QueueGet ev) w) of
           (Inl err, w') \<Rightarrow> (Raised err, ls, w')
         | (Inr ls', w') \<Rightarrow> event_loop cfg rest ls' w')
      else (case finalize_dispatch w of (r, w') \<Rightarrow> (r, ls, w')))"

text \<open>The part of \<^verbatim>\<open>_run_planned_workflow\<close> before the loop.\<close>

definition start_workflow :: "config \<Rightarrow> world \<Rightarrow> (error + loop_state) \<times> world" where
  "start_workflow cfg w =
     (let (t, w1) = now w;
          dispatch_result = generate_dispatch_result\<lparr>r_start_time := Some t, r_status := Some RUNNING\<rparr>;
          w2 = datasvc_update_dispatch_result dispatch_result w1;
          (tasks_left, initial_nodes, pending_parents) =
             get_initial_tasks_and_deps (datasvc_get_graph_nodes_links w2)
      in case submit_all cfg initial_nodes w2 of
           (Inl err, w3) \<Rightarrow> (Inl err, w3)
         | (Inr u, w3) \<Rightarrow>
            (Inr \<lparr>unresolved_tasks = int (length initial_nodes), tasks_left = tasks_left,
                  pending_parents = pending_parents\<rparr>, w3))"

definition run_planned_workflow_state ::
  "config \<Rightarrow> event list \<Rightarrow> world \<Rightarrow> status outcome \<times> loop_state option \<times> world" where
  "run_planned_workflow_state cfg evs w =
     (case start_workflow cfg w of
        (Inl err, w') \<Rightarrow> (Raised err, None, w')
      | (Inr ls, w') \<Rightarrow> (case event_loop cfg evs ls w' of (r, ls', w'') \<Rightarrow> (r, Some ls', w'')))"

definition run_planned_workflow :: "config \<Rightarrow> event list \<Rightarrow> world \<Rightarrow> status outcome \<times> world" where
  "run_planned_workflow cfg evs w =
     (case run_planned_workflow_state cfg evs w of (r, ls, w') \<Rightarrow> (r, w'))"

subsection \<open>\<^verbatim>\<open>run_workflow\<close>\<close>

text \<open>The \<^verbatim>\<open>finally\<close> block.\<close>

definition cleanup :: "world \<Rightarrow> world" where
  "cleanup w = emit QueueRemoved (datasvc_finalize_dispatch (datasvc_persist_result w))"

definition run_workflow :: "config \<Rightarrow> event list \<Rightarrow> world \<Rightarrow> status outcome \<times> world" where
  "run_workflow cfg evs w =
     (if datasvc_get_dispatch_status w = COMPLETED then
        (Returned COMPLETED, datasvc_finalize_dispatch w)
      else
        (case run_planned_workflow cfg evs (emit QueueCreated w) of
           (Returned dispatch_status, w') \<Rightarrow> (Returned dispatch_status, cleanup w')
         | (Raised ex, w') \<Rightarrow>
            (let error_msg = format_exception cfg ex;
                 (t, w1) = now w';
                 dispatch_result = generate_dispatch_result
                   \<lparr>r_end_time := Some t, r_status := Some FAILED, r_error := Some error_msg\<rparr>;
                 w2 = datasvc_update_dispatch_result dispatch_result w1
             in (Returned FAILED, cleanup w2))
         | (Blocked, w') \<Rightarrow> (Blocked, w')))"



text \<open>The body of the \<^verbatim>\<open>try\<close> block: the queue is registered, then the planned workflow runs.\<close>

abbreviation planned_run :: "config \<Rightarrow> event list \<Rightarrow> world \<Rightarrow> status outcome \<times> world" where
  "planned_run cfg evs w \<equiv> run_planned_workflow cfg evs (emit QueueCreated w)"

section \<open>Abstract task inputs as the specification words them\<close>

text \<open>
  The positional arguments are the parents of the incoming edges that are not \<^verbatim>\<open>wait_for\<close> and
  have \<^verbatim>\<open>param_type\<close> \<open>arg\<close>, by ascending \<^verbatim>\<open>arg_index\<close>; the keyword arguments map
  \<^verbatim>\<open>edge_name\<close> to the parent over the edges that are not \<^verbatim>\<open>wait_for\<close> and have
  \<^verbatim>\<open>param_type\<close> \<open>kwarg\<close> (a later edge of the same name replaces an earlier one).
\<close>

definition is_arg_edge :: "edge \<Rightarrow> bool" where
  "is_arg_edge e = (wait_for (attrs e) \<noteq> Some True \<and> param_type (attrs e) = Some ''arg'')"

definition is_kwarg_edge :: "edge \<Rightarrow> bool" where
  "is_kwarg_edge e = (wait_for (attrs e) \<noteq> Some True \<and> param_type (attrs e) = Some ''kwarg'')"

definition spec_args :: "edge list \<Rightarrow> nat list" where
  "spec_args es = map source (sort_key (\<lambda>e. the (arg_index (attrs e))) (filter is_arg_edge es))"

definition spec_kwargs :: "edge list \<Rightarrow> (string \<rightharpoonup> nat)" where
  "spec_kwargs es =
     map_of (rev (map (\<lambda>e. (the (edge_name (attrs e)), source e)) (filter is_kwarg_edge es)))"

text \<open>
  The dict of an edge has the keys the dispatcher reads: \<^verbatim>\<open>param_type\<close> unless the edge is
  \<^verbatim>\<open>wait_for\<close>, \<^verbatim>\<open>arg_index\<close> on an \<open>arg\<close> edge, \<^verbatim>\<open>edge_name\<close> on a \<open>kwarg\<close> edge.
\<close>

definition keys_present :: "edge \<Rightarrow> bool" where
  "keys_present e =
     (wait_for (attrs e) = Some True \<or>
      (case param_type (attrs e) of
         None \<Rightarrow> False
       | Some pt \<Rightarrow> (pt = ''arg'' \<longrightarrow> arg_index (attrs e) \<noteq> None) \<and>
                    (pt = ''kwarg'' \<longrightarrow> edge_name (attrs e) \<noteq> None)))"

section \<open>Example dispatches\<close>

definition cfg0 :: config where
  "cfg0 = \<lparr>parameter_prefix = '':parameter:'', postprocess_prefix = '':postprocess:'',
            NEW_RUNNER_ENABLED = False,
            format_exception = (\<lambda>e. case e of KeyError k \<Rightarrow> ''KeyError: '' @ k)\<rparr>"

definition mk_electron :: "string \<Rightarrow> obj option \<Rightarrow> status \<Rightarrow> electron" where
  "mk_electron nm v s =
     \<lparr>e_name = nm, e_value = v, e_executor = ''local'', e_executor_data = ''{}'', e_status = s,
      e_start_time = None, e_end_time = None, e_output = None\<rparr>"

text \<open>A world whose clock advances by one at every reading.\<close>

definition mk_world :: "status \<Rightarrow> nat \<Rightarrow> (nat \<rightharpoonup> electron) \<Rightarrow> graph \<Rightarrow> world" where
  "mk_world s n els g =
     \<lparr>store = \<lparr>d_status = s, d_start_time = None, d_end_time = None, d_error = None,
                d_result = None, num_nodes = n, completed_electron_num = 0, electrons = els,
                transport_graph = g\<rparr>,
      clock = (\<lambda>k. k), reads = 0, trace = []\<rparr>"

definition empty_graph :: graph where
  "empty_graph = \<lparr>g_nodes = [], g_edges = []\<rparr>"

text \<open>A dispatch with the single node 0, named \<open>a\<close>, in the given status.\<close>

definition single_node_world :: "status \<Rightarrow> status \<Rightarrow> world" where
  "single_node_world ds ns =
     mk_world ds 1 [0 \<mapsto> mk_electron ''a'' None ns] \<lparr>g_nodes = [0], g_edges = []\<rparr>"

text \<open>A dispatch whose only node is a parameter node carrying the value \<open>5\<close>.\<close>

definition parameter_world :: world where
  "parameter_world =
     mk_world NEW_OBJECT 1 [0 \<mapsto> mk_electron '':parameter:5'' (Some ''5'') NEW_OBJECT]
       \<lparr>g_nodes = [0], g_edges = []\<rparr>"

text \<open>
  Node 2 takes node 1 as second and node 0 as first positional argument, node 0 again as
  keyword \<open>k\<close>, and waits for node 1.
\<close>

definition arg_edge :: "nat \<Rightarrow> nat \<Rightarrow> int \<Rightarrow> edge" where
  "arg_edge p c i =
     \<lparr>source = p, target = c,
      attrs = \<lparr>wait_for = Some False, param_type = Some ''arg'', arg_index = Some i,
               edge_name = Some ''x''\<rparr>\<rparr>"

definition kwarg_edge :: "nat \<Rightarrow> nat \<Rightarrow> string \<Rightarrow> edge" where
  "kwarg_edge p c k =
     \<lparr>source = p, target = c,
      attrs = \<lparr>wait_for = Some False, param_type = Some ''kwarg'', arg_index = None,
               edge_name = Some k\<rparr>\<rparr>"

definition wait_edge :: "nat \<Rightarrow> nat \<Rightarrow> edge" where
  "wait_edge p c =
     \<lparr>source = p, target = c,
      attrs = \<lparr>wait_for = Some True, param_type = None, arg_index = None, edge_name = None\<rparr>\<rparr>"

definition inputs_world :: world where
  "inputs_world =
     mk_world NEW_OBJECT 3
       [0 \<mapsto> mk_electron ''f'' None NEW_OBJECT, 1 \<mapsto> mk_electron ''g'' None NEW_OBJECT,
        2 \<mapsto> mk_electron ''h'' None NEW_OBJECT]
       \<lparr>g_nodes = [0, 1, 2],
        g_edges = [arg_edge 1 2 1, arg_edge 0 2 0, kwarg_edge 0 2 ''k'', wait_edge 1 2]\<rparr>"

section \<open>Properties of the readiness tracker\<close>

lemma initial_loop_acc:
  "initial_loop ps (k, r, pp) =
     (k + int (length ps),
      r @ map fst (filter (\<lambda>p. snd p = 0) ps),
      pp ++ map_of (rev ps))"
proof (induction ps arbitrary: k r pp)
  case Nil
  show ?case by simp
next
  case (Cons p ps)
  obtain n d where p: "p = (n, d)" by (cases p)
  have m: "pp(n \<mapsto> d) ++ map_of (rev ps) = pp ++ map_of (rev ps @ [(n, d)])"
    by (rule ext) (simp add: map_add_def split: option.splits)
  have "initial_loop (p # ps) (k, r, pp) =
      initial_loop ps (k + 1, (if d = 0 then r @ [n] else r), pp(n \<mapsto> d))"
    unfolding p by simp
  also have "\<dots> = (k + 1 + int (length ps),
       (if d = 0 then r @ [n] else r) @ map fst (filter (\<lambda>p. snd p = 0) ps),
       pp(n \<mapsto> d) ++ map_of (rev ps))"
    by (rule Cons.IH)
  also have "\<dots> = (k + int (length (p # ps)),
      r @ map fst (filter (\<lambda>p. snd p = 0) (p # ps)),
      pp ++ map_of (rev (p # ps)))"
    unfolding m unfolding p by simp
  finally show ?case .
qed

lemma map_of_rev_in_degree:
  "map_of (rev (map (\<lambda>n. (n, f n)) ns)) = (\<lambda>n. if n \<in> set ns then Some (f n) else None)"
proof (induction ns)
  case Nil
  show ?case by simp
next
  case (Cons a ns)
  show ?case
    by (rule ext) (simp add: Cons.IH map_add_def)
qed

text \<open>
  C9. For every graph, \<^verbatim>\<open>_get_initial_tasks_and_deps\<close> returns the number of nodes, the nodes
  of in-degree zero (in node order) as the ready list, and the map sending each node to its
  in-degree; on the graph with edges (0,1), (0,2), (1,3), (2,3) this is 4, [0] and
  {0:0, 1:1, 2:1, 3:2}.
\<close>

theorem initial_tasks_and_deps_in_degree:
  "get_initial_tasks_and_deps g =
     (int (length (g_nodes g)),
      filter (\<lambda>n. in_degree_of g n = 0) (g_nodes g),
      (\<lambda>n. if n \<in> set (g_nodes g) then Some (in_degree_of g n) else None))
   \<and> get_initial_tasks_and_deps diamond = (4, [0], [0 \<mapsto> 0, 1 \<mapsto> 1, 2 \<mapsto> 1, 3 \<mapsto> 2])"
proof
  show "get_initial_tasks_and_deps g =
     (int (length (g_nodes g)),
      filter (\<lambda>n. in_degree_of g n = 0) (g_nodes g),
      (\<lambda>n. if n \<in> set (g_nodes g) then Some (in_degree_of g n) else None))"
    by (simp add: get_initial_tasks_and_deps_def in_degree_def initial_loop_acc
        map_of_rev_in_degree filter_map comp_def)
  show "get_initial_tasks_and_deps diamond = (4, [0], [0 \<mapsto> 0, 1 \<mapsto> 1, 2 \<mapsto> 1, 3 \<mapsto> 2])"
    by (simp add: get_initial_tasks_and_deps_def in_degree_def in_degree_of_def diamond_def
        mk_edge_def)
qed



section \<open>Redispatch of a completed dispatch\<close>

text \<open>
  C6. If the stored status of the dispatch is COMPLETED, \<^verbatim>\<open>run_workflow\<close> returns COMPLETED at
  once: store and clock are untouched and the only effect is the \<^verbatim>\<open>finalize_dispatch\<close>
  bookkeeping call, so no task is submitted, no status queue is created or read and nothing
  is written.
\<close>

theorem run_workflow_completed_short_circuit:
  "d_status (store w) = COMPLETED \<Longrightarrow>
   run_workflow cfg evs w = (Returned COMPLETED, w\<lparr>trace := trace w @ [FinalizeDispatch]\<rparr>)"
  by (simp add: run_workflow_def datasvc_get_dispatch_status_def datasvc_finalize_dispatch_def
      emit_def)

theorem run_workflow_completed_short_circuit_witness:
  "d_status (store (single_node_world COMPLETED COMPLETED)) = COMPLETED \<and>
   run_workflow cfg0 [] (single_node_world COMPLETED COMPLETED) =
     (Returned COMPLETED,
      (single_node_world COMPLETED COMPLETED)\<lparr>trace := [FinalizeDispatch]\<rparr>)"
proof -
  have h: "d_status (store (single_node_world COMPLETED COMPLETED)) = COMPLETED"
    by (simp add: single_node_world_def mk_world_def)
  have t: "trace (single_node_world COMPLETED COMPLETED) = []"
    by (simp add: single_node_world_def mk_world_def)
  show ?thesis
    using h run_workflow_completed_short_circuit [OF h, of cfg0 "[]"] by (simp add: t)
qed

section \<open>A dispatch without nodes\<close>

lemma finalize_nothing_incomplete:
  "num_nodes (store w) = 0 \<Longrightarrow> finalize_dispatch w = (Returned (d_status (store w)), w)"
  by (simp add: finalize_dispatch_def datasvc_get_incomplete_tasks_def
      result_get_incomplete_nodes_def datasvc_get_dispatch_status_def)

text \<open>
  C10. If the graph of the dispatch has no nodes, \<^verbatim>\<open>_run_planned_workflow\<close> marks the dispatch
  RUNNING, submits nothing, takes nothing from the status queue and returns the status read
  back by \<^verbatim>\<open>_finalize_dispatch\<close>, which is still RUNNING: the only effect is the one dispatch
  update, and the stored status is neither COMPLETED nor FAILED.
\<close>

theorem empty_dispatch_stays_running:
  assumes "g_nodes (transport_graph (store w)) = []" and "num_nodes (store w) = 0"
  shows "run_planned_workflow cfg evs w =
     (Returned RUNNING,
      w\<lparr>store := (store w)\<lparr>d_start_time := Some (clock w (reads w)), d_status := RUNNING\<rparr>,
        reads := Suc (reads w),
        trace := trace w @ [UpdateDispatch (generate_dispatch_result
                   \<lparr>r_start_time := Some (clock w (reads w)), r_status := Some RUNNING\<rparr>)]\<rparr>)"
proof -
  define w2 where "w2 = datasvc_update_dispatch_result
      (generate_dispatch_result\<lparr>r_start_time := Some (clock w (reads w)), r_status := Some RUNNING\<rparr>)
      (snd (now w))"
  have g: "g_nodes (transport_graph (store w2)) = []" and n: "num_nodes (store w2) = 0"
    and s: "d_status (store w2) = RUNNING"
    using assms
    by (simp_all add: w2_def datasvc_update_dispatch_result_def emit_def now_def
        result_update_dispatch_def generate_dispatch_result_def)
  have init: "get_initial_tasks_and_deps (datasvc_get_graph_nodes_links w2) = (0, [], Map.empty)"
    using g by (simp add: get_initial_tasks_and_deps_def in_degree_def
        datasvc_get_graph_nodes_links_def)
  have start: "start_workflow cfg w =
      (Inr \<lparr>unresolved_tasks = 0, tasks_left = 0, pending_parents = Map.empty\<rparr>, w2)"
    using init by (simp add: start_workflow_def now_def w2_def)
  have loop: "event_loop cfg evs \<lparr>unresolved_tasks = 0, tasks_left = 0, pending_parents = Map.empty\<rparr> w2
      = (Returned RUNNING, \<lparr>unresolved_tasks = 0, tasks_left = 0, pending_parents = Map.empty\<rparr>, w2)"
    using finalize_nothing_incomplete [OF n] s by (cases evs) simp_all
  have w2_eq: "w2 = w\<lparr>store := (store w)\<lparr>d_start_time := Some (clock w (reads w)), d_status := RUNNING\<rparr>,
        reads := Suc (reads w),
        trace := trace w @ [UpdateDispatch (generate_dispatch_result
                   \<lparr>r_start_time := Some (clock w (reads w)), r_status := Some RUNNING\<rparr>)]\<rparr>"
    by (simp add: w2_def datasvc_update_dispatch_result_def emit_def now_def
        result_update_dispatch_def generate_dispatch_result_def)
  have "run_planned_workflow cfg evs w = (Returned RUNNING, w2)"
    by (simp add: run_planned_workflow_def run_planned_workflow_state_def start loop)
  then show ?thesis
    by (simp only: w2_eq)
qed

theorem empty_dispatch_stays_running_witness:
  "g_nodes (transport_graph (store (mk_world NEW_OBJECT 0 Map.empty empty_graph))) = [] \<and>
   num_nodes (store (mk_world NEW_OBJECT 0 Map.empty empty_graph)) = 0 \<and>
   fst (run_planned_workflow cfg0 [] (mk_world NEW_OBJECT 0 Map.empty empty_graph)) = Returned RUNNING \<and>
   d_status (store (snd (run_planned_workflow cfg0 [] (mk_world NEW_OBJECT 0 Map.empty empty_graph))))
     = RUNNING"
proof -
  have a: "g_nodes (transport_graph (store (mk_world NEW_OBJECT 0 Map.empty empty_graph))) = []"
    by (simp add: mk_world_def empty_graph_def)
  have b: "num_nodes (store (mk_world NEW_OBJECT 0 Map.empty empty_graph)) = 0"
    by (simp add: mk_world_def)
  show ?thesis
    using a b empty_dispatch_stays_running [OF a b, of cfg0 "[]"] by simp
qed


section \<open>The finalizer\<close>


lemma nodes_with_status_Inr:
  "nodes_with_status st s ns = Inr xs \<Longrightarrow>
   xs = map (\<lambda>i. (i, e_name (the (electrons st i))))
          (filter (\<lambda>i. e_status (the (electrons st i)) = s) ns)"
proof (induction ns arbitrary: xs)
  case Nil
  then show ?case by simp
next
  case (Cons i ns)
  then show ?case
    by (auto split: option.splits sum.splits if_splits)
qed

text \<open>
  C1 (as amended). When the store reports at least one FAILED or CANCELLED node,
  \<^verbatim>\<open>_finalize_dispatch\<close> sets the dispatch status to FAILED if some node failed and to CANCELLED
  otherwise, sets the end time to the clock reading, and sets the error to
  \<^verbatim>\<open>"The following tasks failed:\n"\<close> followed by the newline-joined entries
  \<^verbatim>\<open>"{node_id}: {node_name}"\<close> of the FAILED nodes only, in node order; it returns the status read
  back from the store.
\<close>

theorem finalize_dispatch_failed_or_cancelled:
  assumes inc: "datasvc_get_incomplete_tasks w = Inr (failed, cancelled)"
      and ne: "failed \<noteq> [] \<or> cancelled \<noteq> []"
  shows "fst (finalize_dispatch w) = Returned (d_status (store (snd (finalize_dispatch w))))
       \<and> d_status (store (snd (finalize_dispatch w))) = (if failed \<noteq> [] then FAILED else CANCELLED)
       \<and> d_end_time (store (snd (finalize_dispatch w))) = Some (clock w (reads w))
       \<and> d_error (store (snd (finalize_dispatch w))) =
           Some (''The following tasks failed:'' @ newline @
                 join newline (map (\<lambda>x. str_nat (fst x) @ '': '' @ snd x) failed))
       \<and> failed = map (\<lambda>i. (i, e_name (the (electrons (store w) i))))
            (filter (\<lambda>i. e_status (the (electrons (store w) i)) = FAILED) [0 ..< num_nodes (store w)])"
proof -
  have f: "nodes_with_status (store w) FAILED [0 ..< num_nodes (store w)] = Inr failed"
    using inc
    by (auto simp: datasvc_get_incomplete_tasks_def result_get_incomplete_nodes_def
        split: sum.splits)
  have 1: "failed = map (\<lambda>i. (i, e_name (the (electrons (store w) i))))
            (filter (\<lambda>i. e_status (the (electrons (store w) i)) = FAILED) [0 ..< num_nodes (store w)])"
    by (rule nodes_with_status_Inr [OF f])
  have 2: "fst (finalize_dispatch w) = Returned (d_status (store (snd (finalize_dispatch w))))"
    using inc by (simp add: finalize_dispatch_def datasvc_get_dispatch_status_def Let_def
        split: prod.splits)
  have 3: "d_status (store (snd (finalize_dispatch w))) = (if failed \<noteq> [] then FAILED else CANCELLED)"
    using inc ne
    by (simp add: finalize_dispatch_def Let_def datasvc_update_dispatch_result_def emit_def
        result_update_dispatch_def generate_dispatch_result_def now_def split: prod.splits)
  have 4: "d_end_time (store (snd (finalize_dispatch w))) = Some (clock w (reads w))"
    using inc ne
    by (simp add: finalize_dispatch_def Let_def datasvc_update_dispatch_result_def emit_def
        result_update_dispatch_def generate_dispatch_result_def now_def split: prod.splits)
  have 5: "d_error (store (snd (finalize_dispatch w))) =
           Some (''The following tasks failed:'' @ newline @
                 join newline (map (\<lambda>x. str_nat (fst x) @ '': '' @ snd x) failed))"
    using inc ne
    by (simp add: finalize_dispatch_def Let_def datasvc_update_dispatch_result_def emit_def
        result_update_dispatch_def generate_dispatch_result_def now_def split: prod.splits)
  from 1 2 3 4 5 show ?thesis by blast
qed

lemma single_node_incomplete:
  "datasvc_get_incomplete_tasks (single_node_world ds FAILED) = Inr ([(0, ''a'')], [])"
  "datasvc_get_incomplete_tasks (single_node_world ds CANCELLED) = Inr ([], [(0, ''a'')])"
  by (simp_all add: datasvc_get_incomplete_tasks_def result_get_incomplete_nodes_def
      single_node_world_def mk_world_def mk_electron_def)

theorem finalize_dispatch_failed_or_cancelled_witness:
  "datasvc_get_incomplete_tasks (single_node_world RUNNING FAILED) = Inr ([(0, ''a'')], [])
   \<and> fst (finalize_dispatch (single_node_world RUNNING FAILED)) = Returned FAILED
   \<and> d_status (store (snd (finalize_dispatch (single_node_world RUNNING FAILED)))) = FAILED
   \<and> d_end_time (store (snd (finalize_dispatch (single_node_world RUNNING FAILED)))) = Some 0
   \<and> d_error (store (snd (finalize_dispatch (single_node_world RUNNING FAILED)))) =
        Some (''The following tasks failed:'' @ newline @ ''0: a'')"
proof -
  have h: "datasvc_get_incomplete_tasks (single_node_world RUNNING FAILED) = Inr ([(0, ''a'')], [])"
    by (rule single_node_incomplete)
  have n: "[(0::nat, ''a'')] \<noteq> [] \<or> ([]::(nat \<times> string) list) \<noteq> []" by simp
  have c: "clock (single_node_world RUNNING FAILED) (reads (single_node_world RUNNING FAILED)) = 0"
    by (simp add: single_node_world_def mk_world_def)
  have s: "str_nat 0 = ''0''" by (simp add: str_nat.simps digit_char_def)
  show ?thesis
    using h finalize_dispatch_failed_or_cancelled [OF h n] by (simp add: c s)
qed

text \<open>
  The claim as stated lists the cancelled nodes too. For a dispatch whose single node 0, named
  \<open>a\<close>, is CANCELLED the error is the bare header: the entry \<open>0: a\<close> is missing.
\<close>

theorem finalize_dispatch_cancelled_not_listed:
  "datasvc_get_incomplete_tasks (single_node_world RUNNING CANCELLED) = Inr ([], [(0, ''a'')])
   \<and> d_status (store (snd (finalize_dispatch (single_node_world RUNNING CANCELLED)))) = CANCELLED
   \<and> d_error (store (snd (finalize_dispatch (single_node_world RUNNING CANCELLED)))) =
        Some (''The following tasks failed:'' @ newline)
   \<and> d_error (store (snd (finalize_dispatch (single_node_world RUNNING CANCELLED)))) \<noteq>
        Some (''The following tasks failed:'' @ newline @ ''0: a'')"
proof -
  have h: "datasvc_get_incomplete_tasks (single_node_world RUNNING CANCELLED) = Inr ([], [(0, ''a'')])"
    by (rule single_node_incomplete)
  have e: "d_error (store (snd (finalize_dispatch (single_node_world RUNNING CANCELLED)))) =
        Some (''The following tasks failed:'' @ newline)"
    using h
    by (simp add: finalize_dispatch_def Let_def datasvc_update_dispatch_result_def emit_def
        result_update_dispatch_def generate_dispatch_result_def now_def split: prod.splits)
  have s: "d_status (store (snd (finalize_dispatch (single_node_world RUNNING CANCELLED)))) = CANCELLED"
    using h
    by (simp add: finalize_dispatch_def Let_def datasvc_update_dispatch_result_def emit_def
        result_update_dispatch_def generate_dispatch_result_def now_def split: prod.splits)
  show ?thesis using h e s by simp
qed


section \<open>Submission of a parameter node\<close>

lemma submit_task_parameter_eq:
  assumes e: "electrons (store w) node_id = Some e"
      and p: "startswith (e_name e) (parameter_prefix cfg)"
  shows "submit_task cfg node_id w =
     datasvc_update_node_result cfg
       \<lparr>n_node_id = node_id, n_start_time = Some (clock w (reads w)),
        n_end_time = Some (clock w (Suc (reads w))), n_status = Some COMPLETED,
        n_output = e_value e\<rparr>
       (w\<lparr>reads := Suc (Suc (reads w))\<rparr>)"
  using e p by (simp add: submit_task_def datasvc_get_electron_def now_def Let_def)

text \<open>
  C5 (as amended). For a node whose name starts with the parameter prefix, \<^verbatim>\<open>_submit_task\<close>
  succeeds with exactly one effect, the write of one node result with status COMPLETED,
  output equal to the node's \<^verbatim>\<open>value\<close> attribute, start time the first and end time the
  second of two successive clock readings; no runner task is created. The stored node is
  COMPLETED with these two times.
\<close>

theorem submit_task_parameter_node:
  assumes e: "electrons (store w) node_id = Some e"
      and p: "startswith (e_name e) (parameter_prefix cfg)"
  shows "fst (submit_task cfg node_id w) = Inr ()
       \<and> trace (snd (submit_task cfg node_id w)) =
           trace w @ [UpdateNode \<lparr>n_node_id = node_id, n_start_time = Some (clock w (reads w)),
                                  n_end_time = Some (clock w (Suc (reads w))),
                                  n_status = Some COMPLETED, n_output = e_value e\<rparr>]
       \<and> map_option e_status (electrons (store (snd (submit_task cfg node_id w))) node_id)
           = Some COMPLETED
       \<and> map_option e_start_time (electrons (store (snd (submit_task cfg node_id w))) node_id)
           = Some (Some (clock w (reads w)))
       \<and> map_option e_end_time (electrons (store (snd (submit_task cfg node_id w))) node_id)
           = Some (Some (clock w (Suc (reads w))))
       \<and> (e_value e \<noteq> None \<longrightarrow>
            map_option e_output (electrons (store (snd (submit_task cfg node_id w))) node_id)
              = Some (e_value e))"
  unfolding submit_task_parameter_eq [OF e p]
  using e
  by (auto simp: datasvc_update_node_result_def result_update_node_def emit_def Let_def
      split: option.splits)

lemma parameter_world_node:
  "electrons (store parameter_world) 0 = Some (mk_electron '':parameter:5'' (Some ''5'') NEW_OBJECT)"
  by (simp add: parameter_world_def mk_world_def)

lemma parameter_world_prefix:
  "startswith (e_name (mk_electron '':parameter:5'' (Some ''5'') NEW_OBJECT)) (parameter_prefix cfg0)"
  by (simp add: mk_electron_def cfg0_def)

theorem submit_task_parameter_node_witness:
  "electrons (store parameter_world) 0 = Some (mk_electron '':parameter:5'' (Some ''5'') NEW_OBJECT)
   \<and> startswith (e_name (mk_electron '':parameter:5'' (Some ''5'') NEW_OBJECT)) (parameter_prefix cfg0)
   \<and> fst (submit_task cfg0 0 parameter_world) = Inr ()
   \<and> trace (snd (submit_task cfg0 0 parameter_world)) =
        [UpdateNode \<lparr>n_node_id = 0, n_start_time = Some 0, n_end_time = Some 1,
                     n_status = Some COMPLETED, n_output = Some ''5''\<rparr>]
   \<and> map_option e_output (electrons (store (snd (submit_task cfg0 0 parameter_world))) 0)
        = Some (Some ''5'')"
proof -
  have c: "clock parameter_world = (\<lambda>k. k)" "reads parameter_world = 0" "trace parameter_world = []"
    by (simp_all add: parameter_world_def mk_world_def)
  have v: "e_value (mk_electron '':parameter:5'' (Some ''5'') NEW_OBJECT) = Some ''5''"
    by (simp add: mk_electron_def)
  show ?thesis
    using parameter_world_node parameter_world_prefix
      submit_task_parameter_node [OF parameter_world_node parameter_world_prefix]
    by (simp add: c v)
qed

text \<open>
  The claim as stated has the start time equal to the end time. The two times are separate
  readings of the clock: when the clock advances between them they differ.
\<close>

theorem submit_task_parameter_times_differ:
  "map_option e_start_time (electrons (store (snd (submit_task cfg0 0 parameter_world))) 0)
     = Some (Some 0)
   \<and> map_option e_end_time (electrons (store (snd (submit_task cfg0 0 parameter_world))) 0)
     = Some (Some 1)
   \<and> map_option e_start_time (electrons (store (snd (submit_task cfg0 0 parameter_world))) 0)
     \<noteq> map_option e_end_time (electrons (store (snd (submit_task cfg0 0 parameter_world))) 0)"
proof -
  have eq: "submit_task cfg0 0 parameter_world =
     datasvc_update_node_result cfg0
       \<lparr>n_node_id = 0, n_start_time = Some (clock parameter_world (reads parameter_world)),
        n_end_time = Some (clock parameter_world (Suc (reads parameter_world))),
        n_status = Some COMPLETED,
        n_output = e_value (mk_electron '':parameter:5'' (Some ''5'') NEW_OBJECT)\<rparr>
       (parameter_world\<lparr>reads := Suc (Suc (reads parameter_world))\<rparr>)"
    by (rule submit_task_parameter_eq [OF parameter_world_node parameter_world_prefix])
  have c: "clock parameter_world = (\<lambda>k. k)" "reads parameter_world = 0"
    by (simp_all add: parameter_world_def mk_world_def)
  show ?thesis
    unfolding eq using parameter_world_node
    by (simp add: c datasvc_update_node_result_def result_update_node_def emit_def Let_def
        mk_electron_def)
qed

section \<open>Abstract task inputs\<close>

lemma insort_key_map:
  "insort_key f (g x) (map g ys) = map g (insort_key (\<lambda>y. f (g y)) x ys)"
  by (induction ys) simp_all

lemma sort_key_map:
  "sort_key f (map g xs) = map g (sort_key (\<lambda>y. f (g y)) xs)"
  by (induction xs) (simp_all add: insort_key_map)

lemma map_of_foldl_update:
  "map_of (foldl (\<lambda>kw e. AList.update (k e) (v e) kw) kwargs es) =
     map_of kwargs ++ map_of (rev (map (\<lambda>e. (k e, v e)) es))"
proof (induction es arbitrary: kwargs)
  case Nil
  show ?case by simp
next
  case (Cons e es)
  have "map_of (AList.update (k e) (v e) kwargs) ++ map_of (rev (map (\<lambda>e. (k e, v e)) es)) =
        map_of kwargs ++ map_of (rev (map (\<lambda>e. (k e, v e)) es) @ [(k e, v e)])"
    by (rule ext) (simp add: update_conv' map_add_def split: option.splits)
  then show ?case
    by (simp add: Cons.IH)
qed

lemma abstract_inputs_loop_closed:
  "list_all keys_present es \<Longrightarrow>
   abstract_inputs_loop es (args, kwargs) =
     Inr (args @ map (\<lambda>e. (source e, the (arg_index (attrs e)))) (filter is_arg_edge es),
          foldl (\<lambda>kw e. AList.update (the (edge_name (attrs e))) (source e) kw) kwargs
            (filter is_kwarg_edge es))"
proof (induction es arbitrary: args kwargs)
  case Nil
  show ?case by simp
next
  case (Cons e es)
  from Cons.prems have k: "keys_present e" and rest: "list_all keys_present es"
    by simp_all
  note IH = Cons.IH [OF rest]
  show ?case
  proof (cases "wait_for (attrs e) = Some True")
    case True
    then show ?thesis
      by (simp add: IH is_arg_edge_def is_kwarg_edge_def)
  next
    case False
    with k obtain pt where pt: "param_type (attrs e) = Some pt"
      and a: "pt = ''arg'' \<Longrightarrow> arg_index (attrs e) \<noteq> None"
      and b: "pt = ''kwarg'' \<Longrightarrow> edge_name (attrs e) \<noteq> None"
      by (auto simp: keys_present_def split: option.splits)
    show ?thesis
    proof (cases "pt = ''arg''")
      case True
      with a obtain i where "arg_index (attrs e) = Some i" by auto
      with False pt True show ?thesis
        by (simp add: IH is_arg_edge_def is_kwarg_edge_def)
    next
      case notarg: False
      show ?thesis
      proof (cases "pt = ''kwarg''")
        case True
        with b obtain key where "edge_name (attrs e) = Some key" by auto
        with False pt True show ?thesis
          by (simp add: IH is_arg_edge_def is_kwarg_edge_def)
      next
        case False
        with \<open>wait_for (attrs e) \<noteq> Some True\<close> pt notarg show ?thesis
          by (simp add: IH is_arg_edge_def is_kwarg_edge_def)
      qed
    qed
  qed
qed

text \<open>
  C8. When every incoming edge carries the keys the dispatcher reads,
  \<^verbatim>\<open>_get_abstract_task_inputs\<close> returns as \<^verbatim>\<open>args\<close> the parent ids of the incoming edges that are
  not \<^verbatim>\<open>wait_for\<close> and have \<^verbatim>\<open>param_type\<close> \<open>arg\<close>, ordered by ascending \<^verbatim>\<open>arg_index\<close>, and as
  \<^verbatim>\<open>kwargs\<close> the mapping from \<^verbatim>\<open>edge_name\<close> to the parent id over the incoming edges that are not
  \<^verbatim>\<open>wait_for\<close> and have \<^verbatim>\<open>param_type\<close> \<open>kwarg\<close>; \<^verbatim>\<open>wait_for\<close> edges contribute to neither, and
  the entries are node ids.
\<close>

theorem abstract_task_inputs_spec:
  assumes "list_all keys_present (datasvc_get_incoming_edges w node_id)"
  shows "map_sum id (\<lambda>(args, kwargs). (args, map_of kwargs)) (get_abstract_task_inputs w node_id) =
     Inr (spec_args (datasvc_get_incoming_edges w node_id),
          spec_kwargs (datasvc_get_incoming_edges w node_id))"
  by (simp add: get_abstract_task_inputs_def abstract_inputs_loop_closed [OF assms]
      spec_args_def spec_kwargs_def sort_key_map map_of_foldl_update)

lemma inputs_world_incoming:
  "datasvc_get_incoming_edges inputs_world 2 =
     [arg_edge 1 2 1, arg_edge 0 2 0, kwarg_edge 0 2 ''k'', wait_edge 1 2]"
  by (simp add: datasvc_get_incoming_edges_def inputs_world_def mk_world_def arg_edge_def
      kwarg_edge_def wait_edge_def)

theorem abstract_task_inputs_spec_witness:
  "list_all keys_present (datasvc_get_incoming_edges inputs_world 2)
   \<and> map_sum id (\<lambda>(args, kwargs). (args, map_of kwargs)) (get_abstract_task_inputs inputs_world 2)
       = Inr ([0, 1], [''k'' \<mapsto> 0])"
proof -
  have h: "list_all keys_present (datasvc_get_incoming_edges inputs_world 2)"
    unfolding inputs_world_incoming
    by (simp add: keys_present_def arg_edge_def kwarg_edge_def wait_edge_def)
  have a: "spec_args (datasvc_get_incoming_edges inputs_world 2) = [0, 1]"
    unfolding inputs_world_incoming
    by (simp add: spec_args_def is_arg_edge_def arg_edge_def kwarg_edge_def wait_edge_def)
  have k: "spec_kwargs (datasvc_get_incoming_edges inputs_world 2) = [''k'' \<mapsto> 0]"
    unfolding inputs_world_incoming
    by (simp add: spec_kwargs_def is_kwarg_edge_def arg_edge_def kwarg_edge_def wait_edge_def)
  show ?thesis
    using h abstract_task_inputs_spec [OF h] by (simp only: a k simp_thms)
qed

section \<open>Exceptions and cleanup in \<^verbatim>\<open>run_workflow\<close>\<close>

lemma cleanup_fields:
  "store (cleanup w) = store w"
  "trace (cleanup w) = trace w @ [PersistResult, FinalizeDispatch, QueueRemoved]"
  by (simp_all add: cleanup_def datasvc_finalize_dispatch_def datasvc_persist_result_def emit_def)

lemma run_workflow_raised:
  assumes "datasvc_get_dispatch_status w \<noteq> COMPLETED"
      and "planned_run cfg evs w = (Raised ex, w')"
  shows "run_workflow cfg evs w =
     (Returned FAILED,
      cleanup (datasvc_update_dispatch_result
        (generate_dispatch_result\<lparr>r_end_time := Some (clock w' (reads w')),
           r_status := Some FAILED, r_error := Some (format_exception cfg ex)\<rparr>)
        (snd (now w'))))"
  using assms by (simp add: run_workflow_def now_def Let_def)

lemma run_workflow_returned:
  assumes "datasvc_get_dispatch_status w \<noteq> COMPLETED"
      and "planned_run cfg evs w = (Returned s, w')"
  shows "run_workflow cfg evs w = (Returned s, cleanup w')"
  using assms by (simp add: run_workflow_def)

text \<open>
  C7. When the stored status is not COMPLETED and the planned-workflow run raises any
  exception, \<^verbatim>\<open>run_workflow\<close> returns FAILED after updating the dispatch to status FAILED with
  the formatted exception as error and the clock reading as end time; whether the run raises
  or returns, the last effects before \<^verbatim>\<open>run_workflow\<close> returns are \<^verbatim>\<open>persist_result\<close>,
  \<^verbatim>\<open>finalize_dispatch\<close> and the removal of the status queue.
\<close>

theorem run_workflow_exception_cleanup:
  assumes "datasvc_get_dispatch_status w \<noteq> COMPLETED"
  shows "(fst (planned_run cfg evs w) = Raised ex \<longrightarrow>
            fst (run_workflow cfg evs w) = Returned FAILED
          \<and> d_status (store (snd (run_workflow cfg evs w))) = FAILED
          \<and> d_error (store (snd (run_workflow cfg evs w))) = Some (format_exception cfg ex)
          \<and> d_end_time (store (snd (run_workflow cfg evs w))) =
               Some (clock (snd (planned_run cfg evs w)) (reads (snd (planned_run cfg evs w))))
          \<and> trace (snd (run_workflow cfg evs w)) =
               trace (snd (planned_run cfg evs w)) @
               [UpdateDispatch (generate_dispatch_result
                  \<lparr>r_end_time := Some (clock (snd (planned_run cfg evs w))
                                          (reads (snd (planned_run cfg evs w)))),
                    r_status := Some FAILED, r_error := Some (format_exception cfg ex)\<rparr>),
                PersistResult, FinalizeDispatch, QueueRemoved])
       \<and> (fst (planned_run cfg evs w) = Returned s \<longrightarrow>
            fst (run_workflow cfg evs w) = Returned s
          \<and> store (snd (run_workflow cfg evs w)) = store (snd (planned_run cfg evs w))
          \<and> trace (snd (run_workflow cfg evs w)) =
               trace (snd (planned_run cfg evs w)) @ [PersistResult, FinalizeDispatch, QueueRemoved])"
proof (intro conjI impI)
  assume r: "fst (planned_run cfg evs w) = Raised ex"
  obtain w' where p: "planned_run cfg evs w = (Raised ex, w')"
    using r by (cases "planned_run cfg evs w") simp
  have sp: "snd (planned_run cfg evs w) = w'" using p by simp
  note eq = run_workflow_raised [OF assms p]
  show "fst (run_workflow cfg evs w) = Returned FAILED"
    by (simp add: eq)
  show "d_status (store (snd (run_workflow cfg evs w))) = FAILED"
    by (simp add: eq cleanup_fields datasvc_update_dispatch_result_def emit_def
        result_update_dispatch_def generate_dispatch_result_def)
  show "d_error (store (snd (run_workflow cfg evs w))) = Some (format_exception cfg ex)"
    by (simp add: eq cleanup_fields datasvc_update_dispatch_result_def emit_def
        result_update_dispatch_def generate_dispatch_result_def)
  show "d_end_time (store (snd (run_workflow cfg evs w))) =
      Some (clock (snd (planned_run cfg evs w)) (reads (snd (planned_run cfg evs w))))"
    unfolding sp
    by (simp add: eq cleanup_fields datasvc_update_dispatch_result_def emit_def
        result_update_dispatch_def generate_dispatch_result_def now_def)
  show "trace (snd (run_workflow cfg evs w)) =
      trace (snd (planned_run cfg evs w)) @
      [UpdateDispatch (generate_dispatch_result
         \<lparr>r_end_time := Some (clock (snd (planned_run cfg evs w))
                                 (reads (snd (planned_run cfg evs w)))),
           r_status := Some FAILED, r_error := Some (format_exception cfg ex)\<rparr>),
       PersistResult, FinalizeDispatch, QueueRemoved]"
    unfolding sp
    by (simp add: eq cleanup_fields datasvc_update_dispatch_result_def emit_def now_def)
next
  assume r: "fst (planned_run cfg evs w) = Returned s"
  obtain w' where p: "planned_run cfg evs w = (Returned s, w')"
    using r by (cases "planned_run cfg evs w") simp
  have sp: "snd (planned_run cfg evs w) = w'" using p by simp
  note eq = run_workflow_returned [OF assms p]
  show "fst (run_workflow cfg evs w) = Returned s"
    by (simp add: eq)
  show "store (snd (run_workflow cfg evs w)) = store (snd (planned_run cfg evs w))"
    unfolding sp by (simp add: eq cleanup_fields)
  show "trace (snd (run_workflow cfg evs w)) =
      trace (snd (planned_run cfg evs w)) @ [PersistResult, FinalizeDispatch, QueueRemoved]"
    unfolding sp by (simp add: eq cleanup_fields)
qed

lemma single_node_start:
  "start_workflow cfg0 (emit QueueCreated (single_node_world NEW_OBJECT NEW_OBJECT)) =
     (Inr \<lparr>unresolved_tasks = 1, tasks_left = 1, pending_parents = [0 \<mapsto> 0]\<rparr>,
      snd (start_workflow cfg0 (emit QueueCreated (single_node_world NEW_OBJECT NEW_OBJECT))))"
  by (simp add: start_workflow_def now_def Let_def emit_def single_node_world_def mk_world_def
      datasvc_update_dispatch_result_def result_update_dispatch_def generate_dispatch_result_def
      datasvc_get_graph_nodes_links_def get_initial_tasks_and_deps_def in_degree_def
      in_degree_of_def submit_task_def datasvc_get_electron_def mk_electron_def cfg0_def
      get_abstract_task_inputs_def datasvc_get_incoming_edges_def)

lemma single_node_raises:
  "fst (planned_run cfg0 [(0, DISPATCHING, None)] (single_node_world NEW_OBJECT NEW_OBJECT)) =
     Raised (KeyError ''sub_dispatch_id'')"
  unfolding run_planned_workflow_def run_planned_workflow_state_def
  by (subst single_node_start) (simp add: handle_event_def)

lemma single_node_returns:
  "fst (planned_run cfg0 [(0, FAILED, None)] (single_node_world NEW_OBJECT NEW_OBJECT)) =
     Returned RUNNING"
  unfolding run_planned_workflow_def run_planned_workflow_state_def
  apply (subst single_node_start)
  apply (simp add: handle_event_def)
  apply (simp add: start_workflow_def now_def Let_def emit_def single_node_world_def mk_world_def
      datasvc_update_dispatch_result_def result_update_dispatch_def generate_dispatch_result_def
      datasvc_get_graph_nodes_links_def get_initial_tasks_and_deps_def in_degree_def
      in_degree_of_def submit_task_def datasvc_get_electron_def mk_electron_def cfg0_def
      get_abstract_task_inputs_def datasvc_get_incoming_edges_def finalize_dispatch_def
      datasvc_get_incomplete_tasks_def result_get_incomplete_nodes_def
      datasvc_get_dispatch_status_def)
  done

theorem run_workflow_exception_cleanup_witness:
  "datasvc_get_dispatch_status (single_node_world NEW_OBJECT NEW_OBJECT) \<noteq> COMPLETED
   \<and> fst (planned_run cfg0 [(0, DISPATCHING, None)] (single_node_world NEW_OBJECT NEW_OBJECT))
       = Raised (KeyError ''sub_dispatch_id'')
   \<and> fst (run_workflow cfg0 [(0, DISPATCHING, None)] (single_node_world NEW_OBJECT NEW_OBJECT))
       = Returned FAILED
   \<and> d_error (store (snd (run_workflow cfg0 [(0, DISPATCHING, None)]
         (single_node_world NEW_OBJECT NEW_OBJECT)))) = Some ''KeyError: sub_dispatch_id''
   \<and> fst (planned_run cfg0 [(0, FAILED, None)] (single_node_world NEW_OBJECT NEW_OBJECT))
       = Returned RUNNING
   \<and> fst (run_workflow cfg0 [(0, FAILED, None)] (single_node_world NEW_OBJECT NEW_OBJECT))
       = Returned RUNNING"
proof -
  have h: "datasvc_get_dispatch_status (single_node_world NEW_OBJECT NEW_OBJECT) \<noteq> COMPLETED"
    by (simp add: datasvc_get_dispatch_status_def single_node_world_def mk_world_def)
  have f: "format_exception cfg0 (KeyError ''sub_dispatch_id'') = ''KeyError: sub_dispatch_id''"
    by (simp add: cfg0_def)
  show ?thesis
    using h single_node_raises single_node_returns
      run_workflow_exception_cleanup [OF h, of cfg0 "[(0, DISPATCHING, None)]"
        "KeyError ''sub_dispatch_id''" RUNNING]
      run_workflow_exception_cleanup [OF h, of cfg0 "[(0, FAILED, None)]"
        "KeyError ''sub_dispatch_id''" RUNNING]
    by (simp add: f)
qed

end
